theory Spec2Isabelle
  imports Main "HOL-Library.Word"
begin

section \<open>Machine types of tac.h\<close>

text \<open>
  The header uses \<^verbatim>\<open>size_t\<close>, \<^verbatim>\<open>ssize_t\<close> and \<^verbatim>\<open>uint64_t\<close>.  On the LP64
  targets the compiler is written for, all three are 64 bits wide; \<^verbatim>\<open>size_t\<close> and
  \<^verbatim>\<open>uint64_t\<close> are read with \<open>unat\<close>, \<^verbatim>\<open>ssize_t\<close> with \<open>sint\<close>.  Arithmetic on
  them wraps around, as unsigned arithmetic does in C++.
\<close>

type_synonym size_t = "64 word"
type_synonym ssize_t = "64 word"
type_synonym uint64_t = "64 word"

text \<open>
  A data member that a constructor's initialiser list does not mention and that has a
  scalar type is left default-initialised: it holds an indeterminate value.  The model
  keeps that visible instead of inventing a value.
\<close>

datatype 'a member = Indeterminate | Assigned 'a

text \<open>
  Objects are created with \<^verbatim>\<open>new\<close> and referred to through pointers.  A pointer is
  \<open>None\<close> for \<^verbatim>\<open>nullptr\<close> and \<open>Some a\<close> for the object at address \<open>a\<close>; the address
  of an object is its position in allocation order.
\<close>

type_synonym Operand_ptr = "nat option"
type_synonym TAC_ptr = "nat option"

section \<open>std::to\_string on unsigned integers\<close>

text \<open>
  \<^verbatim>\<open>std::to_string(unsigned long)\<close> prints as \<^verbatim>\<open>sprintf("%lu")\<close> does: the decimal
  digits, most significant first, no sign and no leading zero.
\<close>

definition digit :: "nat \<Rightarrow> char" where
  "digit d = ''0123456789'' ! d"

function to_string :: "nat \<Rightarrow> string" where
  "to_string n = (if n < 10 then [digit n] else to_string (n div 10) @ [digit (n mod 10)])"
  by pat_completeness auto
termination
  by (relation "measure id") auto

declare to_string.simps [simp del]

text \<open>Reading a decimal numeral back, to say what "decimal string" means.\<close>

definition digit_value :: "char \<Rightarrow> nat" where
  "digit_value c = of_char c - 48"

definition decimal_value :: "string \<Rightarrow> nat" where
  "decimal_value s = foldl (\<lambda>a c. 10 * a + digit_value c) 0 s"

definition is_digit :: "char \<Rightarrow> bool" where
  "is_digit c \<longleftrightarrow> c \<in> set ''0123456789''"

text \<open>
  The decimal numeral of a number: a string of digits, not empty, with no leading zero
  (the numeral of 0 is the one string that starts with a zero), that reads back as the
  number.
\<close>

definition decimal_numeral :: "string \<Rightarrow> nat \<Rightarrow> bool" where
  "decimal_numeral s n \<longleftrightarrow>
     s \<noteq> [] \<and> list_all is_digit s \<and> (hd s = CHR ''0'' \<longrightarrow> s = ''0'')
     \<and> decimal_value s = n"

section \<open>Operands\<close>

datatype OperandType = SIGNED | UNSIGNED | FLOAT | AGGREGATE

text \<open>
  The data members of the classes are written with the suffix \<open>_f\<close> (\<open>width_f\<close> is
  \<^verbatim>\<open>width_\<close>), since a name cannot end in an underscore here.
\<close>

record Operand =
  width_f :: size_t
  type_f :: OperandType

definition IsInteger :: "'a Operand_scheme \<Rightarrow> bool" where
  "IsInteger x \<longleftrightarrow> type_f x = SIGNED \<or> type_f x = UNSIGNED"

definition IsUnsigned :: "'a Operand_scheme \<Rightarrow> bool" where
  "IsUnsigned x \<longleftrightarrow> type_f x = UNSIGNED"

definition IsSigned :: "'a Operand_scheme \<Rightarrow> bool" where
  "IsSigned x \<longleftrightarrow> type_f x = SIGNED"

definition IsFloat :: "'a Operand_scheme \<Rightarrow> bool" where
  "IsFloat x \<longleftrightarrow> type_f x = FLOAT"

definition IsAggregate :: "'a Operand_scheme \<Rightarrow> bool" where
  "IsAggregate x \<longleftrightarrow> type_f x = AGGREGATE"

subsection \<open>Variable\<close>

record Variable = Operand +
  name_f :: string
  offset_f :: "ssize_t member"

text \<open>
  \<^verbatim>\<open>Variable(size_t width, OperandType type, const std::string& name)
      : Operand(width, type), name_(name) {}\<close>
  The initialiser list has no entry for \<^verbatim>\<open>offset_\<close>.
\<close>

definition Variable_name :: "size_t \<Rightarrow> OperandType \<Rightarrow> string \<Rightarrow> Variable" where
  "Variable_name width type name =
     \<lparr>width_f = width, type_f = type, name_f = name, offset_f = Indeterminate\<rparr>"

text \<open>
  \<^verbatim>\<open>Variable(size_t width, OperandType type, const ssize_t offset)
      : Operand(width, type), offset_(offset) {}\<close>
  The initialiser list has no entry for \<^verbatim>\<open>name_\<close>, a \<^verbatim>\<open>std::string\<close>, whose default
  constructor gives the empty string.
\<close>

definition Variable_offset :: "size_t \<Rightarrow> OperandType \<Rightarrow> ssize_t \<Rightarrow> Variable" where
  "Variable_offset width type offset =
     \<lparr>width_f = width, type_f = type, name_f = [], offset_f = Assigned offset\<rparr>"

text \<open>\<^verbatim>\<open>ssize_t offset() const { return offset_; }\<close>\<close>

definition offset :: "Variable \<Rightarrow> ssize_t member" where
  "offset v = offset_f v"

subsection \<open>Constant\<close>

record Constant = Operand +
  val_f :: uint64_t

definition Constant_ctor :: "size_t \<Rightarrow> OperandType \<Rightarrow> uint64_t \<Rightarrow> Constant" where
  "Constant_ctor width type v = \<lparr>width_f = width, type_f = type, val_f = v\<rparr>"

definition val :: "Constant \<Rightarrow> uint64_t" where
  "val c = val_f c"

subsection \<open>Temporary\<close>

record Temporary = Operand +
  id_f :: size_t

subsection \<open>The dynamic type behind an Operand pointer, and Repr\<close>

datatype OperandObj = Var Variable | Const Constant | Temp Temporary

text \<open>
  \<^verbatim>\<open>Repr\<close> is virtual: the override of the object's class runs.
  Variable: \<^verbatim>\<open>return name_;\<close>
  Constant: \<^verbatim>\<open>return std::to_string(val_);\<close>
  Temporary: \<^verbatim>\<open>return "t" + std::to_string(id_);\<close>
\<close>

fun Repr :: "OperandObj \<Rightarrow> string" where
  "Repr (Var v) = name_f v"
| "Repr (Const c) = to_string (unat (val_f c))"
| "Repr (Temp t) = ''t'' @ to_string (unat (id_f t))"

section \<open>The static state and the constructors that use it\<close>

text \<open>
  The only static of the header is the counter inside \<^verbatim>\<open>Temporary::GenId\<close>:
  \<^verbatim>\<open>static size_t GenId() { static size_t id = 0; return ++id; }\<close>
\<close>

record process =
  GenId_id :: size_t

definition init_process :: process where
  "init_process = \<lparr>GenId_id = 0\<rparr>"

definition GenId :: "'a process_scheme \<Rightarrow> size_t \<times> 'a process_scheme" where
  "GenId s = (GenId_id s + 1, s\<lparr>GenId_id := GenId_id s + 1\<rparr>)"

text \<open>
  \<^verbatim>\<open>Temporary(size_t width, OperandType type)
      : Operand(width, type), id_(GenId()) {}\<close>
\<close>

definition Temporary_ctor ::
  "size_t \<Rightarrow> OperandType \<Rightarrow> 'a process_scheme \<Rightarrow> Temporary \<times> 'a process_scheme" where
  "Temporary_ctor width type s =
     (case GenId s of (i, s') \<Rightarrow> (\<lparr>width_f = width, type_f = type, id_f = i\<rparr>, s'))"

text \<open>
  The constructors are private and the classes have no friends, so an operand comes into
  being only through one of the four constructors above, called by the static factory of
  its class.  A history of the process is the list of these constructor calls in the order
  they happen; running it gives the objects constructed, oldest first.
\<close>

datatype ctor_call =
    Call_Temporary size_t OperandType
  | Call_Variable_name size_t OperandType string
  | Call_Variable_offset size_t OperandType ssize_t
  | Call_Constant size_t OperandType uint64_t

fun construct :: "ctor_call \<Rightarrow> 'a process_scheme \<Rightarrow> OperandObj \<times> 'a process_scheme" where
  "construct (Call_Temporary w t) s = (case Temporary_ctor w t s of (x, s') \<Rightarrow> (Temp x, s'))"
| "construct (Call_Variable_name w t name) s = (Var (Variable_name w t name), s)"
| "construct (Call_Variable_offset w t off) s = (Var (Variable_offset w t off), s)"
| "construct (Call_Constant w t v) s = (Const (Constant_ctor w t v), s)"

fun run :: "ctor_call list \<Rightarrow> 'a process_scheme \<Rightarrow> OperandObj list \<times> 'a process_scheme" where
  "run [] s = ([], s)"
| "run (c # cs) s =
     (case construct c s of (x, s') \<Rightarrow> (case run cs s' of (xs, s'') \<Rightarrow> (x # xs, s'')))"

fun is_Call_Temporary :: "ctor_call \<Rightarrow> bool" where
  "is_Call_Temporary (Call_Temporary w t) = True"
| "is_Call_Temporary (Call_Variable_name w t name) = False"
| "is_Call_Temporary (Call_Variable_offset w t off) = False"
| "is_Call_Temporary (Call_Constant w t v) = False"

text \<open>The identifiers of the Temporaries among some objects, in the order of the list.\<close>

fun temp_ids :: "OperandObj list \<Rightarrow> size_t list" where
  "temp_ids [] = []"
| "temp_ids (Temp t # os) = id_f t # temp_ids os"
| "temp_ids (Var v # os) = temp_ids os"
| "temp_ids (Const c # os) = temp_ids os"

text \<open>The Temporaries among some objects, in the order of the list.\<close>

fun temporaries :: "OperandObj list \<Rightarrow> Temporary list" where
  "temporaries [] = []"
| "temporaries (Temp t # os) = t # temporaries os"
| "temporaries (Var v # os) = temporaries os"
| "temporaries (Const c # os) = temporaries os"

section \<open>Instructions\<close>

datatype Operator =
    ADD | SUB | MUL | DIV | LESS | GREATER | EQ | NE | LE | GE
  | L_SHIFT | R_SHIFT | OR | AND | XOR
  | ASSIGN | DES_SS_ASSIGN | SRC_SS_ASSIGN | DEREF_ASSIGN
  | PRE_INC | POST_INC | PRE_DEC | POST_DEC | PLUS | MINUS | ADDR | DEREF | COMPT | NOT | CAST
  | PARAM | CALL
  | JUMP | IF | IF_FALSE
  | LABEL

text \<open>
  The anonymous union of \<^verbatim>\<open>TAC\<close>: one of \<^verbatim>\<open>rhs_\<close>, \<^verbatim>\<open>n_\<close>, \<^verbatim>\<open>jump_des_\<close> is the
  member a constructor wrote.
\<close>

datatype payload = rhs_f Operand_ptr | n_f ssize_t | jump_des_f TAC_ptr

record TAC =
  op_f :: Operator
  des_f :: Operand_ptr
  lhs_f :: Operand_ptr
  union_f :: payload

text \<open>
  The three private constructors of \<^verbatim>\<open>TAC\<close>:
  \<^verbatim>\<open>TAC(Operator op, Operand* des, Operand* lhs, Operand* rhs)
      : op_(op), des_(des), lhs_(lhs), rhs_(rhs) {}\<close>
  \<^verbatim>\<open>TAC(Operator op, Operand* des, Operand* lhs, ssize_t n)
      : op_(op), des_(des), lhs_(lhs), n_(n) {}\<close>
  \<^verbatim>\<open>TAC(Operator op, Operand* lhs, TAC* jump_des)
      : op_(op), des_(nullptr), lhs_(lhs), jump_des_(jump_des) {}\<close>
\<close>

definition TAC_ctor_rhs :: "Operator \<Rightarrow> Operand_ptr \<Rightarrow> Operand_ptr \<Rightarrow> Operand_ptr \<Rightarrow> TAC" where
  "TAC_ctor_rhs op des lhs rhs = \<lparr>op_f = op, des_f = des, lhs_f = lhs, union_f = rhs_f rhs\<rparr>"

definition TAC_ctor_n :: "Operator \<Rightarrow> Operand_ptr \<Rightarrow> Operand_ptr \<Rightarrow> ssize_t \<Rightarrow> TAC" where
  "TAC_ctor_n op des lhs n = \<lparr>op_f = op, des_f = des, lhs_f = lhs, union_f = n_f n\<rparr>"

definition TAC_ctor_jump :: "Operator \<Rightarrow> Operand_ptr \<Rightarrow> TAC_ptr \<Rightarrow> TAC" where
  "TAC_ctor_jump op lhs jump_des =
     \<lparr>op_f = op, des_f = None, lhs_f = lhs, union_f = jump_des_f jump_des\<rparr>"


definition NewLabel ::
  "(Operator \<Rightarrow> Operand_ptr \<Rightarrow> Operand_ptr \<Rightarrow> Operand_ptr \<Rightarrow> 's \<Rightarrow> 'r) \<Rightarrow> 's \<Rightarrow> 'r" where
  "NewLabel NewBinary = NewBinary LABEL None None None"

section \<open>Allocation and the factories the header only declares\<close>

text \<open>
  Modelled from the spec: the \<^verbatim>\<open>new\<close> expressions are inside the factories, whose
  bodies are not in tac.h.  The spec calls every factory "a pure, synchronous allocation"
  and says operands and nodes are never individually freed.  So the process also has the
  objects allocated so far, oldest first, and an allocation puts the object at the next
  address and returns that address.
\<close>

record heap = process +
  operands :: "OperandObj list"
  tacs :: "TAC list"

definition init_heap :: heap where
  "init_heap = \<lparr>GenId_id = 0, operands = [], tacs = []\<rparr>"

definition new_operand :: "OperandObj \<Rightarrow> 'a heap_scheme \<Rightarrow> Operand_ptr \<times> 'a heap_scheme" where
  "new_operand obj s = (Some (length (operands s)), s\<lparr>operands := operands s @ [obj]\<rparr>)"

definition new_TAC :: "TAC \<Rightarrow> 'a heap_scheme \<Rightarrow> TAC_ptr \<times> 'a heap_scheme" where
  "new_TAC t s = (Some (length (tacs s)), s\<lparr>tacs := tacs s @ [t]\<rparr>)"

text \<open>Reading through a pointer: nothing behind \<^verbatim>\<open>nullptr\<close> or an address not yet allocated.\<close>

definition operand_at :: "'a heap_scheme \<Rightarrow> Operand_ptr \<Rightarrow> OperandObj option" where
  "operand_at s p =
     (case p of None \<Rightarrow> None
      | Some a \<Rightarrow> if a < length (operands s) then Some (operands s ! a) else None)"

definition tac_at :: "'a heap_scheme \<Rightarrow> TAC_ptr \<Rightarrow> TAC option" where
  "tac_at s p =
     (case p of None \<Rightarrow> None
      | Some a \<Rightarrow> if a < length (tacs s) then Some (tacs s ! a) else None)"

text \<open>
  Modelled from the spec: the bodies of \<^verbatim>\<open>TAC::NewBinary\<close>, \<^verbatim>\<open>TAC::NewUnary\<close>,
  \<^verbatim>\<open>TAC::NewJump\<close>, \<^verbatim>\<open>TAC::NewIf\<close> and \<^verbatim>\<open>TAC::NewIfFalse\<close> are not in tac.h.  The
  spec's table of factories:
  NewBinary: "des, lhs, rhs all operands";
  NewUnary: "des, lhs operands; rhs unused";
  NewJump: "lhs unused, jump-target = another TAC node";
  NewIf / NewIfFalse: "lhs = condition operand, jump-target".
  Each allocates one node through the constructor of the header that takes these
  arguments; NewUnary leaves \<^verbatim>\<open>rhs_\<close> null.  The spec also wants the assignment
  factories to refuse a Constant as destination.  Nothing in the header does so (the
  constructors store whatever pointer they get, and NewDerefAssign passes \<^verbatim>\<open>des\<close> on
  as it is), and the functions below do not either.
\<close>

definition TAC_NewBinary ::
  "Operator \<Rightarrow> Operand_ptr \<Rightarrow> Operand_ptr \<Rightarrow> Operand_ptr \<Rightarrow> 'a heap_scheme \<Rightarrow> TAC_ptr \<times> 'a heap_scheme" where
  "TAC_NewBinary op des lhs rhs s = new_TAC (TAC_ctor_rhs op des lhs rhs) s"


definition TAC_NewJump :: "TAC_ptr \<Rightarrow> 'a heap_scheme \<Rightarrow> TAC_ptr \<times> 'a heap_scheme" where
  "TAC_NewJump des s = new_TAC (TAC_ctor_jump JUMP None des) s"

definition TAC_NewIf ::
  "Operand_ptr \<Rightarrow> TAC_ptr \<Rightarrow> 'a heap_scheme \<Rightarrow> TAC_ptr \<times> 'a heap_scheme" where
  "TAC_NewIf cond des s = new_TAC (TAC_ctor_jump IF cond des) s"

definition TAC_NewIfFalse ::
  "Operand_ptr \<Rightarrow> TAC_ptr \<Rightarrow> 'a heap_scheme \<Rightarrow> TAC_ptr \<times> 'a heap_scheme" where
  "TAC_NewIfFalse cond des s = new_TAC (TAC_ctor_jump IF_FALSE cond des) s"

text \<open>Nodes allocated later, one after the other.\<close>

fun new_TACs :: "TAC list \<Rightarrow> 'a heap_scheme \<Rightarrow> 'a heap_scheme" where
  "new_TACs [] s = s"
| "new_TACs (t # ts) s = new_TACs ts (snd (new_TAC t s))"

text \<open>
  Modelled from the spec: the bodies of \<^verbatim>\<open>Constant::Zero()\<close> and \<^verbatim>\<open>Constant::One()\<close>
  are not in tac.h.  The spec: they "return process-wide shared canonical instances
  (lazily constructed, reused across all call sites)", with \<^verbatim>\<open>val() == 0\<close> and
  \<^verbatim>\<open>IsInteger()\<close> for Zero and \<^verbatim>\<open>val() == 1\<close> for One.  So each has a static pointer,
  null until the first call, which constructs the Constant and keeps its address.  The
  spec fixes neither the width nor the signedness that Zero passes to the constructor, nor
  the width and class that One passes: they are arguments here.
\<close>

record statics = heap +
  Zero_static :: Operand_ptr
  One_static :: Operand_ptr

definition init_statics :: statics where
  "init_statics =
     \<lparr>GenId_id = 0, operands = [], tacs = [], Zero_static = None, One_static = None\<rparr>"

definition Constant_Zero :: "size_t \<Rightarrow> bool \<Rightarrow> statics \<Rightarrow> Operand_ptr \<times> statics" where
  "Constant_Zero width is_signed s =
     (case Zero_static s of
        Some a \<Rightarrow> (Some a, s)
      | None \<Rightarrow>
          (case new_operand
                  (Const (Constant_ctor width (if is_signed then SIGNED else UNSIGNED) 0)) s of
             (p, s') \<Rightarrow> (p, s'\<lparr>Zero_static := p\<rparr>)))"

definition Constant_One :: "size_t \<Rightarrow> OperandType \<Rightarrow> statics \<Rightarrow> Operand_ptr \<times> statics" where
  "Constant_One width type s =
     (case One_static s of
        Some a \<Rightarrow> (Some a, s)
      | None \<Rightarrow>
          (case new_operand (Const (Constant_ctor width type 1)) s of
             (p, s') \<Rightarrow> (p, s'\<lparr>One_static := p\<rparr>)))"

text \<open>
  Modelled from the spec: what else the process does between two calls.  An operand
  factory runs a constructor of its class and allocates the object; an instruction factory
  allocates a node.
\<close>

datatype factory_call =
    F_operand ctor_call
  | F_TAC TAC
  | F_Zero size_t bool
  | F_One size_t OperandType

fun do_factory :: "factory_call \<Rightarrow> statics \<Rightarrow> statics" where
  "do_factory (F_operand c) s = (case construct c s of (x, s') \<Rightarrow> snd (new_operand x s'))"
| "do_factory (F_TAC t) s = snd (new_TAC t s)"
| "do_factory (F_Zero w sg) s = snd (Constant_Zero w sg s)"
| "do_factory (F_One w t) s = snd (Constant_One w t s)"

fun do_factories :: "factory_call list \<Rightarrow> statics \<Rightarrow> statics" where
  "do_factories [] s = s"
| "do_factories (c # cs) s = do_factories cs (do_factory c s)"

text \<open>What holds of the two static pointers in every state the process reaches.\<close>

definition holds_constant :: "statics \<Rightarrow> Operand_ptr \<Rightarrow> uint64_t \<Rightarrow> bool" where
  "holds_constant s p v =
     (case p of
        None \<Rightarrow> True
      | Some a \<Rightarrow>
          (case operand_at s (Some a) of
             Some (Const c) \<Rightarrow> val c = v
           | Some (Var x) \<Rightarrow> False
           | Some (Temp t) \<Rightarrow> False
           | None \<Rightarrow> False))"

definition holds_integer :: "statics \<Rightarrow> Operand_ptr \<Rightarrow> bool" where
  "holds_integer s p =
     (case p of
        None \<Rightarrow> True
      | Some a \<Rightarrow>
          (case operand_at s (Some a) of
             Some (Const c) \<Rightarrow> IsInteger c
           | Some (Var x) \<Rightarrow> False
           | Some (Temp t) \<Rightarrow> False
           | None \<Rightarrow> False))"

definition statics_ok :: "statics \<Rightarrow> bool" where
  "statics_ok s \<longleftrightarrow>
     holds_constant s (Zero_static s) 0 \<and> holds_integer s (Zero_static s)
     \<and> holds_constant s (One_static s) 1"

section \<open>Decimal strings\<close>

lemma digit_value_digit: "d < 10 \<Longrightarrow> digit_value (digit d) = d"
proof -
  assume "d < 10"
  then have "d \<in> {0, 1, 2, 3, 4, 5, 6, 7, 8, 9}" by auto
  then show ?thesis
    by (auto simp: digit_def digit_value_def)
qed

lemma is_digit_digit: "d < 10 \<Longrightarrow> is_digit (digit d)"
proof -
  assume "d < 10"
  then have "d \<in> {0, 1, 2, 3, 4, 5, 6, 7, 8, 9}" by auto
  then show ?thesis
    by (auto simp: digit_def is_digit_def)
qed

lemma decimal_value_snoc:
  "decimal_value (s @ [c]) = 10 * decimal_value s + digit_value c"
  by (simp add: decimal_value_def)

lemma decimal_value_to_string: "decimal_value (to_string n) = n"
proof (induction n rule: to_string.induct)
  case (1 n)
  show ?case
  proof (cases "n < 10")
    case True
    then show ?thesis
      by (simp add: to_string.simps [of n] decimal_value_def digit_value_digit)
  next
    case False
    with 1 have "decimal_value (to_string (n div 10)) = n div 10" by simp
    with False show ?thesis
      by (simp add: to_string.simps [of n] decimal_value_snoc digit_value_digit)
  qed
qed

lemma to_string_digits: "list_all is_digit (to_string n)"
proof (induction n rule: to_string.induct)
  case (1 n)
  show ?case
  proof (cases "n < 10")
    case True
    then show ?thesis
      by (simp add: to_string.simps [of n] is_digit_digit)
  next
    case False
    with 1 have "list_all is_digit (to_string (n div 10))" by simp
    with False show ?thesis
      by (simp add: to_string.simps [of n] is_digit_digit)
  qed
qed

lemma digit_of_digit_value:
  assumes "is_digit c"
  shows "digit_value c < 10" and "digit (digit_value c) = c"
    and "c \<noteq> CHR ''0'' \<Longrightarrow> 0 < digit_value c"
  using assms by (auto simp: is_digit_def digit_value_def digit_def)

lemma to_string_not_empty: "to_string n \<noteq> []"
  by (simp add: to_string.simps [of n])

lemma hd_to_string_zero: "hd (to_string n) = CHR ''0'' \<Longrightarrow> n = 0"
proof (induction n rule: to_string.induct)
  case (1 n)
  show ?case
  proof (cases "n < 10")
    case True
    then have "n \<in> {0, 1, 2, 3, 4, 5, 6, 7, 8, 9}" by auto
    with 1(2) show ?thesis
      by (auto simp: to_string.simps [of n] digit_def)
  next
    case False
    with 1(2) have "hd (to_string (n div 10)) = CHR ''0''"
      by (simp add: to_string.simps [of n] to_string_not_empty)
    with 1(1) False have "n div 10 = 0" by simp
    with False show ?thesis by simp
  qed
qed

lemma to_string_0: "to_string 0 = ''0''"
  by (simp add: to_string.simps digit_def)

lemma decimal_numeral_to_string: "decimal_numeral (to_string n) n"
  unfolding decimal_numeral_def
  using hd_to_string_zero [of n]
  by (auto simp: to_string_not_empty to_string_digits decimal_value_to_string to_string_0)

lemma decimal_value_positive:
  "list_all is_digit s \<Longrightarrow> s \<noteq> [] \<Longrightarrow> hd s \<noteq> CHR ''0'' \<Longrightarrow> 0 < decimal_value s"
proof (induction s rule: rev_induct)
  case Nil
  then show ?case by simp
next
  case (snoc c s)
  show ?case
  proof (cases "s = []")
    case True
    with snoc.prems show ?thesis
      by (simp add: decimal_value_def digit_of_digit_value)
  next
    case False
    with snoc have "0 < decimal_value s" by simp
    then show ?thesis by (simp add: decimal_value_snoc)
  qed
qed

lemma decimal_numeral_unique: "decimal_numeral s n \<Longrightarrow> s = to_string n"
proof (induction s arbitrary: n rule: rev_induct)
  case Nil
  then show ?case by (simp add: decimal_numeral_def)
next
  case (snoc c s)
  from snoc.prems have c: "is_digit c" and ds: "list_all is_digit s"
    and n: "n = 10 * decimal_value s + digit_value c"
    by (simp_all add: decimal_numeral_def decimal_value_snoc)
  show ?case
  proof (cases "s = []")
    case True
    with n c have "n < 10" "digit n = c"
      by (simp_all add: decimal_value_def digit_of_digit_value)
    with True show ?thesis by (simp add: to_string.simps [of n])
  next
    case False
    with snoc.prems have hd: "hd s \<noteq> CHR ''0''"
      by (auto simp: decimal_numeral_def)
    from ds False hd have pos: "0 < decimal_value s" by (rule decimal_value_positive)
    from hd ds False have "decimal_numeral s (decimal_value s)"
      by (simp add: decimal_numeral_def)
    then have s: "s = to_string (decimal_value s)" by (rule snoc.IH)
    from n c pos have "\<not> n < 10" "n div 10 = decimal_value s" "n mod 10 = digit_value c"
      by (simp_all add: digit_of_digit_value)
    with c s show ?thesis
      by (simp add: to_string.simps [of n] digit_of_digit_value)
  qed
qed

lemma to_string_iff: "s = to_string n \<longleftrightarrow> decimal_numeral s n"
  using decimal_numeral_unique decimal_numeral_to_string by blast

section \<open>Identifiers of temporaries\<close>

lemma construct_Temporary:
  "construct (Call_Temporary w t) s =
     (Temp \<lparr>width_f = w, type_f = t, id_f = GenId_id s + 1\<rparr>, s\<lparr>GenId_id := GenId_id s + 1\<rparr>)"
  by (simp add: Temporary_ctor_def GenId_def)

lemma construct_other:
  "\<not> is_Call_Temporary c \<Longrightarrow> snd (construct c s) = s"
  "\<not> is_Call_Temporary c \<Longrightarrow> temp_ids (fst (construct c s) # xs) = temp_ids xs"
  by (cases c; simp)+

lemma fst_run_Cons:
  "fst (run (c # cs) s) = fst (construct c s) # fst (run cs (snd (construct c s)))"
  by (simp split: prod.splits)

lemma upt_0_Suc_shift: "[0..<Suc n] = 0 # map Suc [0..<n]"
  by (simp add: upt_conv_Cons map_Suc_upt del: upt_Suc)

lemma run_temp_ids:
  "temp_ids (fst (run cs s)) =
     map (\<lambda>k. GenId_id s + 1 + of_nat k) [0..<length (filter is_Call_Temporary cs)]"
proof (induction cs arbitrary: s)
  case Nil
  then show ?case by simp
next
  case (Cons c cs)
  show ?case
  proof (cases "is_Call_Temporary c")
    case True
    then obtain w t where c: "c = Call_Temporary w t" by (cases c) auto
    let ?s' = "s\<lparr>GenId_id := GenId_id s + 1\<rparr>"
    have "temp_ids (fst (run (c # cs) s)) = (GenId_id s + 1) # temp_ids (fst (run cs ?s'))"
      unfolding fst_run_Cons c construct_Temporary by simp
    also have "\<dots> = (GenId_id s + 1) #
        map (\<lambda>k. GenId_id s + 1 + 1 + of_nat k) [0..<length (filter is_Call_Temporary cs)]"
      unfolding Cons.IH by simp
    also have "\<dots> =
        map (\<lambda>k. GenId_id s + 1 + of_nat k) [0..<Suc (length (filter is_Call_Temporary cs))]"
      unfolding upt_0_Suc_shift by (simp add: comp_def add.assoc)
    finally show ?thesis using True by simp
  next
    case False
    have "temp_ids (fst (run (c # cs) s)) = temp_ids (fst (construct c s) # fst (run cs (snd (construct c s))))"
      by (simp only: fst_run_Cons)
    also have "\<dots> = temp_ids (fst (run cs s))"
      using False by (simp add: construct_other del: construct.simps temp_ids.simps)
    finally show ?thesis using False by (simp add: Cons.IH)
  qed
qed

lemma run_init_temp_ids:
  "temp_ids (fst (run cs init_process)) =
     map of_nat [1..<Suc (length (filter is_Call_Temporary cs))]"
proof -
  have "temp_ids (fst (run cs init_process)) =
      map (\<lambda>k. of_nat (Suc k)) [0..<length (filter is_Call_Temporary cs)]"
    unfolding run_temp_ids by (simp add: init_process_def)
  also have "\<dots> = map of_nat (map Suc [0..<length (filter is_Call_Temporary cs)])"
    by (simp add: comp_def)
  also have "\<dots> = map of_nat [1..<Suc (length (filter is_Call_Temporary cs))]"
    unfolding map_Suc_upt by simp
  finally show ?thesis .
qed

lemma size_t_of_nat_less:
  "i < j \<Longrightarrow> j < 2 ^ 64 \<Longrightarrow> (of_nat i :: size_t) < of_nat j"
  by (simp add: word_less_nat_alt unat_of_nat)

lemma sorted_ids_below_wrap:
  assumes "n < 2 ^ 64"
  shows "sorted_wrt (<) (map of_nat [1..<Suc n] :: size_t list)"
proof -
  have "sorted_wrt (\<lambda>i j. (of_nat i :: size_t) < of_nat j) [1..<Suc n]"
  proof (rule sorted_wrt_mono_rel [where P = "(<)"])
    fix i j
    assume "i \<in> set [1..<Suc n]" "j \<in> set [1..<Suc n]" "i < j"
    with assms show "(of_nat i :: size_t) < of_nat j"
      by (intro size_t_of_nat_less) auto
  qed (rule sorted_wrt_upt)
  then show ?thesis by (simp only: sorted_wrt_map)
qed

lemma unsorted_ids_at_wrap:
  assumes "2 ^ 64 \<le> n"
  shows "\<not> sorted_wrt (<) (map of_nat [1..<Suc n] :: size_t list)"
proof
  let ?xs = "map of_nat [1..<Suc n] :: size_t list"
  assume "sorted_wrt (<) ?xs"
  moreover have "0 < (2 ^ 64 - 1 :: nat)" by simp
  moreover from assms have "(2 ^ 64 - 1 :: nat) < length ?xs" by simp
  ultimately have "?xs ! 0 < ?xs ! (2 ^ 64 - 1)"
    by (rule sorted_wrt_nth_less)
  moreover from assms have "?xs ! 0 = 1" by (simp del: upt_Suc)
  moreover from assms have "?xs ! (2 ^ 64 - 1) = 0" by (simp del: upt_Suc)
  ultimately show False by simp
qed

lemma repeated_id_after_wrap:
  assumes "2 ^ 64 < n"
  shows "\<not> distinct (map of_nat [1..<Suc n] :: size_t list)"
proof
  let ?xs = "map of_nat [1..<Suc n] :: size_t list"
  assume "distinct ?xs"
  moreover from assms have "0 < length ?xs" "(2 ^ 64 :: nat) < length ?xs" by simp_all
  moreover have "(0 :: nat) \<noteq> 2 ^ 64" by simp
  ultimately have "?xs ! 0 \<noteq> ?xs ! (2 ^ 64)"
    unfolding distinct_conv_nth by blast
  moreover from assms have "?xs ! 0 = 1" by (simp del: upt_Suc)
  moreover from assms have "?xs ! (2 ^ 64) = 1" by (simp del: upt_Suc)
  ultimately show False by simp
qed

lemma count_replicate_Call_Temporary:
  "length (filter is_Call_Temporary (replicate n (Call_Temporary w t))) = n"
  by (induction n) simp_all

lemma temp_ids_temporaries: "temp_ids xs = map id_f (temporaries xs)"
  by (induction xs rule: temp_ids.induct) simp_all

lemma Temp_in_temp_ids: "Temp x \<in> set xs \<Longrightarrow> id_f x \<in> set (temp_ids xs)"
  by (induction xs rule: temp_ids.induct) auto

lemma snd_run_Cons: "snd (run (c # cs) s) = snd (run cs (snd (construct c s)))"
  by (simp split: prod.splits)

lemma run_GenId_id:
  "GenId_id (snd (run cs s)) = GenId_id s + of_nat (length (filter is_Call_Temporary cs))"
proof (induction cs arbitrary: s)
  case Nil
  then show ?case by simp
next
  case (Cons c cs)
  show ?case
  proof (cases "is_Call_Temporary c")
    case True
    then obtain w t where c: "c = Call_Temporary w t" by (cases c) auto
    show ?thesis
      unfolding snd_run_Cons Cons.IH unfolding c construct_Temporary by simp
  next
    case False
    then show ?thesis
      unfolding snd_run_Cons Cons.IH by (simp add: construct_other del: construct.simps)
  qed
qed

lemma unat_size_t_of_nat: "k < 2 ^ 64 \<Longrightarrow> unat (of_nat k :: size_t) = k"
  by (simp add: unat_of_nat)

lemma next_id_above_earlier:
  assumes "Suc (length (filter is_Call_Temporary pre)) < 2 ^ 64"
  shows "\<forall>i \<in> set (temp_ids (fst (run pre init_process))).
           i < id_f (fst (Temporary_ctor w t (snd (run pre init_process))))"
proof
  fix i
  let ?n = "length (filter is_Call_Temporary pre)"
  assume "i \<in> set (temp_ids (fst (run pre init_process)))"
  then obtain k where k: "i = of_nat k" "1 \<le> k" "k < Suc ?n"
    unfolding run_init_temp_ids by auto
  have "id_f (fst (Temporary_ctor w t (snd (run pre init_process)))) = of_nat (Suc ?n)"
    by (simp add: Temporary_ctor_def GenId_def run_GenId_id init_process_def)
  moreover from k assms have "(of_nat k :: size_t) < of_nat (Suc ?n)"
    by (intro size_t_of_nat_less) auto
  ultimately show "i < id_f (fst (Temporary_ctor w t (snd (run pre init_process))))"
    using k by simp
qed

text \<open>
  Claim C1.  Start the process, and construct operands in any order; the history has
  fewer than \<open>2 ^ 64\<close> constructions of a Temporary (the counter is a \<^verbatim>\<open>size_t\<close>, and
  no process constructs that many).  Then the identifiers of the Temporaries are
  \<open>1, 2, 3, \<dots>\<close> in construction order, whatever Variables and Constants are
  constructed in between: the first is 1, they are strictly increasing, and no two are
  equal, so no two Temporaries are equal.  And for every construction of a Temporary in
  the history: the object it makes is none of the objects made before it, and its
  identifier is strictly greater than the identifier of every Temporary made before it.
\<close>

theorem Temporary_ids_increasing:
  assumes "length (filter is_Call_Temporary cs) < 2 ^ 64"
  shows "temp_ids (fst (run cs init_process)) =
      map of_nat [1..<Suc (length (filter is_Call_Temporary cs))]
    \<and> sorted_wrt (<) (temp_ids (fst (run cs init_process)))
    \<and> distinct (temp_ids (fst (run cs init_process)))
    \<and> distinct (temporaries (fst (run cs init_process)))
    \<and> (\<forall>pre w t post. cs = pre @ Call_Temporary w t # post \<longrightarrow>
         Temp (fst (Temporary_ctor w t (snd (run pre init_process))))
           \<notin> set (fst (run pre init_process))
         \<and> (\<forall>i \<in> set (temp_ids (fst (run pre init_process))).
               i < id_f (fst (Temporary_ctor w t (snd (run pre init_process))))))"
proof -
  have ids: "temp_ids (fst (run cs init_process)) =
      map of_nat [1..<Suc (length (filter is_Call_Temporary cs))]"
    by (rule run_init_temp_ids)
  have inc: "sorted_wrt (<) (temp_ids (fst (run cs init_process)))"
    unfolding ids using assms by (rule sorted_ids_below_wrap)
  then have dist: "distinct (temp_ids (fst (run cs init_process)))"
    by (simp only: strict_sorted_iff)
  then have objs: "distinct (temporaries (fst (run cs init_process)))"
    unfolding temp_ids_temporaries by (simp add: distinct_map)
  have each: "Temp (fst (Temporary_ctor w t (snd (run pre init_process))))
           \<notin> set (fst (run pre init_process))
         \<and> (\<forall>i \<in> set (temp_ids (fst (run pre init_process))).
               i < id_f (fst (Temporary_ctor w t (snd (run pre init_process)))))"
    if cs: "cs = pre @ Call_Temporary w t # post" for pre w t post
  proof -
    from assms have "Suc (length (filter is_Call_Temporary pre)) < 2 ^ 64"
      unfolding cs by simp
    then have above: "\<forall>i \<in> set (temp_ids (fst (run pre init_process))).
        i < id_f (fst (Temporary_ctor w t (snd (run pre init_process))))"
      by (rule next_id_above_earlier)
    then have "Temp (fst (Temporary_ctor w t (snd (run pre init_process))))
        \<notin> set (fst (run pre init_process))"
      using Temp_in_temp_ids by fastforce
    with above show ?thesis by blast
  qed
  from ids inc dist objs each show ?thesis by blast
qed

text \<open>
  Claim C1, an instance: three Temporaries with a Variable and a Constant in between get
  the identifiers 1, 2 and 3; after the first Temporary and the Variable the identifiers
  so far are just 1, and the Temporary constructed next gets 2.
\<close>

theorem Temporary_ids_increasing_witness:
  "length (filter is_Call_Temporary
      [Call_Temporary 4 SIGNED, Call_Variable_name 4 SIGNED ''a'',
       Call_Temporary 8 FLOAT, Call_Constant 4 SIGNED 1,
       Call_Temporary 4 UNSIGNED]) < 2 ^ 64
   \<and> temp_ids (fst (run
      [Call_Temporary 4 SIGNED, Call_Variable_name 4 SIGNED ''a'',
       Call_Temporary 8 FLOAT, Call_Constant 4 SIGNED 1,
       Call_Temporary 4 UNSIGNED] init_process)) = [1, 2, 3]
   \<and> sorted_wrt (<) (temp_ids (fst (run
      [Call_Temporary 4 SIGNED, Call_Variable_name 4 SIGNED ''a'',
       Call_Temporary 8 FLOAT, Call_Constant 4 SIGNED 1,
       Call_Temporary 4 UNSIGNED] init_process)))
   \<and> temp_ids (fst (run [Call_Temporary 4 SIGNED, Call_Variable_name 4 SIGNED ''a'']
        init_process)) = [1]
   \<and> id_f (fst (Temporary_ctor 8 FLOAT
        (snd (run [Call_Temporary 4 SIGNED, Call_Variable_name 4 SIGNED ''a'']
           init_process)))) = 2"
proof -
  have small: "length (filter is_Call_Temporary
      [Call_Temporary 4 SIGNED, Call_Variable_name 4 SIGNED ''a'',
       Call_Temporary 8 FLOAT, Call_Constant 4 SIGNED 1,
       Call_Temporary 4 UNSIGNED]) < 2 ^ 64"
    by simp
  have step: "temp_ids (fst (run [Call_Temporary 4 SIGNED, Call_Variable_name 4 SIGNED ''a'']
        init_process)) = [1]
   \<and> id_f (fst (Temporary_ctor 8 FLOAT
        (snd (run [Call_Temporary 4 SIGNED, Call_Variable_name 4 SIGNED ''a'']
           init_process)))) = 2"
    by (simp add: Temporary_ctor_def GenId_def init_process_def Variable_name_def)
  from small step Temporary_ids_increasing [OF small] show ?thesis
    by (simp add: upt_conv_Cons del: upt_Suc)
qed

text \<open>
  Why the hypothesis is there: the counter has the 64 bits of \<^verbatim>\<open>size_t\<close>, so a history
  with \<open>2 ^ 64\<close> constructions of a Temporary would take it back to 0.  A Temporary is
  never freed, and that many objects do not fit into the address space, so no process has
  such a history.
\<close>

lemma ids_beyond_the_counter:
  "\<not> sorted_wrt (<)
       (temp_ids (fst (run (replicate (2 ^ 64) (Call_Temporary 4 SIGNED)) init_process)))
   \<and> \<not> distinct
       (temp_ids (fst (run (replicate (2 ^ 64 + 1) (Call_Temporary 4 SIGNED)) init_process)))"
proof
  show "\<not> sorted_wrt (<)
       (temp_ids (fst (run (replicate (2 ^ 64) (Call_Temporary 4 SIGNED)) init_process)))"
    unfolding run_init_temp_ids count_replicate_Call_Temporary
    by (rule unsorted_ids_at_wrap) (rule order_refl)
  show "\<not> distinct
       (temp_ids (fst (run (replicate (2 ^ 64 + 1) (Call_Temporary 4 SIGNED)) init_process)))"
    unfolding run_init_temp_ids count_replicate_Call_Temporary
    by (rule repeated_id_after_wrap) (rule less_add_one)
qed

section \<open>Representation of operands\<close>

lemma Repr_examples:
  "Repr (Var (Variable_name 4 SIGNED ''count'')) = ''count''"
  "Repr (Const (Constant_ctor 8 SIGNED 18446744073709551615)) = ''18446744073709551615''"
  "Repr (Const (Constant_ctor 4 SIGNED 0)) = ''0''"
  "Repr (Temp (fst (Temporary_ctor 4 SIGNED init_process))) = ''t1''"
  by (simp_all add: Variable_name_def Constant_ctor_def Temporary_ctor_def GenId_def
      init_process_def to_string.simps digit_def)

lemma Reprs_of_temporaries:
  assumes "length (filter is_Call_Temporary cs) < 2 ^ 64"
  shows "map (\<lambda>t. Repr (Temp t)) (temporaries (fst (run cs init_process))) =
     map (\<lambda>k. ''t'' @ to_string k) [1..<Suc (length (filter is_Call_Temporary cs))]"
proof -
  let ?n = "length (filter is_Call_Temporary cs)"
  have "map (\<lambda>t. Repr (Temp t)) (temporaries (fst (run cs init_process))) =
      map (\<lambda>i. ''t'' @ to_string (unat i)) (temp_ids (fst (run cs init_process)))"
    unfolding temp_ids_temporaries by (simp add: comp_def)
  also have "\<dots> = map (\<lambda>k. ''t'' @ to_string (unat (of_nat k :: size_t))) [1..<Suc ?n]"
    unfolding run_init_temp_ids by (simp add: comp_def)
  also have "\<dots> = map (\<lambda>k. ''t'' @ to_string k) [1..<Suc ?n]"
  proof (rule map_cong [OF refl])
    fix k
    assume "k \<in> set [1..<Suc ?n]"
    with assms have "k < 2 ^ 64" by (simp del: upt_Suc)
    then show "''t'' @ to_string (unat (of_nat k :: size_t)) = ''t'' @ to_string k"
      by (simp only: unat_size_t_of_nat)
  qed
  finally show ?thesis .
qed

text \<open>
  Claim C5.  \<^verbatim>\<open>Repr()\<close> of a Variable constructed with a name is that name.  Of a
  Temporary it is \<open>t\<close> followed by \<^verbatim>\<open>std::to_string\<close> of its identifier, and the
  identifier follows the allocation order: in a history with fewer than \<open>2 ^ 64\<close>
  constructions of a Temporary, the Temporaries print, in construction order, as \<open>t\<close>
  followed by \<^verbatim>\<open>std::to_string\<close> of 1, 2, 3, \<open>\<dots>\<close>  Of a Constant it is
  \<^verbatim>\<open>std::to_string\<close> of \<^verbatim>\<open>val_\<close> read as an unsigned 64-bit integer.  And
  \<^verbatim>\<open>std::to_string\<close> of a number is its decimal numeral and nothing else: the one
  string of digits, not empty and without a leading zero, that reads back as the number.
\<close>

theorem Repr_of_each_operand_kind:
  assumes "length (filter is_Call_Temporary cs) < 2 ^ 64"
  shows "Repr (Var (Variable_name width type name)) = name
   \<and> Repr (Temp t) = ''t'' @ to_string (unat (id_f t))
   \<and> map (\<lambda>t. Repr (Temp t)) (temporaries (fst (run cs init_process))) =
       map (\<lambda>k. ''t'' @ to_string k) [1..<Suc (length (filter is_Call_Temporary cs))]
   \<and> Repr (Const c) = to_string (unat (val c))
   \<and> (\<forall>s n. s = to_string n \<longleftrightarrow> decimal_numeral s n)"
  using Reprs_of_temporaries [OF assms]
  by (simp add: Variable_name_def val_def to_string_iff)

text \<open>
  Claim C5, an instance: three Temporaries with a Variable and a Constant in between
  print as t1, t2 and t3; a Constant with all 64 bits set prints as
  18446744073709551615, which is a decimal numeral, while 007 and the empty string are
  not.
\<close>

theorem Repr_of_each_operand_kind_witness:
  "length (filter is_Call_Temporary
      [Call_Temporary 4 SIGNED, Call_Variable_name 4 SIGNED ''a'',
       Call_Temporary 8 FLOAT, Call_Constant 4 SIGNED 1,
       Call_Temporary 4 UNSIGNED]) < 2 ^ 64
   \<and> map (\<lambda>t. Repr (Temp t)) (temporaries (fst (run
      [Call_Temporary 4 SIGNED, Call_Variable_name 4 SIGNED ''a'',
       Call_Temporary 8 FLOAT, Call_Constant 4 SIGNED 1,
       Call_Temporary 4 UNSIGNED] init_process))) = [''t1'', ''t2'', ''t3'']
   \<and> Repr (Var (Variable_name 4 SIGNED ''count'')) = ''count''
   \<and> Repr (Const (Constant_ctor 8 SIGNED 18446744073709551615)) = ''18446744073709551615''
   \<and> Repr (Const (Constant_ctor 4 SIGNED 0)) = ''0''
   \<and> decimal_numeral ''18446744073709551615'' 18446744073709551615
   \<and> \<not> decimal_numeral ''007'' 7 \<and> \<not> decimal_numeral [] 0"
proof -
  have small: "length (filter is_Call_Temporary
      [Call_Temporary 4 SIGNED, Call_Variable_name 4 SIGNED ''a'',
       Call_Temporary 8 FLOAT, Call_Constant 4 SIGNED 1,
       Call_Temporary 4 UNSIGNED]) < 2 ^ 64"
    by simp
  have digits: "to_string 1 = ''1''" "to_string 2 = ''2''" "to_string 3 = ''3''"
    "to_string 0 = ''0''" "to_string 18446744073709551615 = ''18446744073709551615''"
    by (simp_all add: to_string.simps digit_def)
  have bad: "\<not> decimal_numeral ''007'' 7" "\<not> decimal_numeral [] 0"
    by (simp_all add: decimal_numeral_def)
  note inst = Repr_of_each_operand_kind [OF small]
  have suc: "to_string (Suc 0) = ''1''" "to_string (Suc (Suc 0)) = ''2''"
    "to_string (Suc (Suc (Suc 0))) = ''3''"
    by (simp_all add: to_string.simps digit_def)
  have "map (\<lambda>t. Repr (Temp t)) (temporaries (fst (run
      [Call_Temporary 4 SIGNED, Call_Variable_name 4 SIGNED ''a'',
       Call_Temporary 8 FLOAT, Call_Constant 4 SIGNED 1,
       Call_Temporary 4 UNSIGNED] init_process))) =
     map (\<lambda>k. ''t'' @ to_string k) [1..<Suc (length (filter is_Call_Temporary
      [Call_Temporary 4 SIGNED, Call_Variable_name 4 SIGNED ''a'',
       Call_Temporary 8 FLOAT, Call_Constant 4 SIGNED 1,
       Call_Temporary 4 UNSIGNED]))]"
    by (rule inst [THEN conjunct2, THEN conjunct2, THEN conjunct1])
  also have "\<dots> = [''t1'', ''t2'', ''t3'']"
    by (simp add: upt_conv_Cons suc del: upt_Suc)
  finally have reprs: "map (\<lambda>t. Repr (Temp t)) (temporaries (fst (run
      [Call_Temporary 4 SIGNED, Call_Variable_name 4 SIGNED ''a'',
       Call_Temporary 8 FLOAT, Call_Constant 4 SIGNED 1,
       Call_Temporary 4 UNSIGNED] init_process))) = [''t1'', ''t2'', ''t3'']" .
  have num: "decimal_numeral ''18446744073709551615'' 18446744073709551615"
    using inst [THEN conjunct2, THEN conjunct2, THEN conjunct2, THEN conjunct2] digits(5)
    by metis
  have others: "Repr (Var (Variable_name 4 SIGNED ''count'')) = ''count''"
    "Repr (Const (Constant_ctor 8 SIGNED 18446744073709551615)) = ''18446744073709551615''"
    "Repr (Const (Constant_ctor 4 SIGNED 0)) = ''0''"
    by (simp_all add: Variable_name_def Constant_ctor_def digits)
  from small reprs others num bad show ?thesis by blast
qed

text \<open>
  Claim C9.  A Variable constructed through the offset-taking constructor has the empty
  string as its \<^verbatim>\<open>Repr()\<close>: \<^verbatim>\<open>name_\<close> is default-constructed and \<^verbatim>\<open>Repr\<close> returns it.
\<close>

theorem Repr_of_offset_Variable_is_empty:
  "Repr (Var (Variable_offset width type off)) = []"
  by (simp add: Variable_offset_def)

text \<open>
  Claim C10.  A Variable constructed through the name-taking constructor has an
  indeterminate \<^verbatim>\<open>offset_\<close>, whatever the arguments of the construction were, and
  \<^verbatim>\<open>offset()\<close> returns that indeterminate value; only the offset-taking constructor
  assigns the member.
\<close>

theorem offset_of_named_Variable_is_indeterminate:
  "offset (Variable_name width type name) = Indeterminate
   \<and> offset (Variable_offset width type off) = Assigned off"
  by (simp add: offset_def Variable_name_def Variable_offset_def)

section \<open>Instruction factories\<close>

lemma tac_at_new_TAC_old:
  "tac_at s p = Some x \<Longrightarrow> tac_at (snd (new_TAC t s)) p = Some x"
  by (cases p) (auto simp: tac_at_def new_TAC_def nth_append split: if_splits)

lemma tac_at_new_TAC_new:
  "tac_at s (fst (new_TAC t s)) = None"
  "tac_at (snd (new_TAC t s)) (fst (new_TAC t s)) = Some t"
  by (simp_all add: tac_at_def new_TAC_def)

lemma tac_at_new_TACs:
  "tac_at s p = Some x \<Longrightarrow> tac_at (new_TACs ts s) p = Some x"
  by (induction ts arbitrary: s) (simp_all add: tac_at_new_TAC_old)

text \<open>
  Claim C3.  \<^verbatim>\<open>NewLabel()\<close> is \<^verbatim>\<open>NewBinary(Operator::LABEL, nullptr, nullptr, nullptr)\<close>,
  whatever NewBinary does; with NewBinary storing its four arguments in a new node, the
  node that NewLabel returns has the operator LABEL and null destination, left and right
  operands.
\<close>

theorem NewLabel_is_null_LABEL:
  "NewLabel NewBinary s = NewBinary LABEL None None None s
   \<and> tac_at (snd (NewLabel TAC_NewBinary h)) (fst (NewLabel TAC_NewBinary h)) =
       Some \<lparr>op_f = LABEL, des_f = None, lhs_f = None, union_f = rhs_f None\<rparr>"
  by (simp add: NewLabel_def TAC_NewBinary_def TAC_ctor_rhs_def tac_at_new_TAC_new)


text \<open>
  Claim C8.  Let \<open>L\<close> point to a node that exists.  \<^verbatim>\<open>NewJump(L)\<close> returns a new node,
  other than \<open>L\<close>, whose union holds the pointer \<open>L\<close> itself as the jump target, with the
  operator JUMP and null destination and left operand; \<^verbatim>\<open>NewIf(cond, L)\<close> and
  \<^verbatim>\<open>NewIfFalse(cond, L)\<close> store \<open>cond\<close> as the left operand and \<open>L\<close> as the jump
  target.  Whatever nodes are allocated later, reading the new node gives the same
  fields, and \<open>L\<close> still points to the node it pointed to.
\<close>

theorem jump_target_is_the_node:
  assumes "tac_at s L = Some node"
  shows "fst (TAC_NewJump L s) \<noteq> L
   \<and> tac_at (new_TACs later (snd (TAC_NewJump L s))) (fst (TAC_NewJump L s)) =
       Some \<lparr>op_f = JUMP, des_f = None, lhs_f = None, union_f = jump_des_f L\<rparr>
   \<and> tac_at (new_TACs later (snd (TAC_NewJump L s))) L = Some node
   \<and> tac_at (new_TACs later (snd (TAC_NewIf cond L s))) (fst (TAC_NewIf cond L s)) =
       Some \<lparr>op_f = IF, des_f = None, lhs_f = cond, union_f = jump_des_f L\<rparr>
   \<and> tac_at (new_TACs later (snd (TAC_NewIf cond L s))) L = Some node
   \<and> tac_at (new_TACs later (snd (TAC_NewIfFalse cond L s))) (fst (TAC_NewIfFalse cond L s)) =
       Some \<lparr>op_f = IF_FALSE, des_f = None, lhs_f = cond, union_f = jump_des_f L\<rparr>
   \<and> tac_at (new_TACs later (snd (TAC_NewIfFalse cond L s))) L = Some node"
proof -
  have fresh: "fst (new_TAC t s) \<noteq> L" for t
    using assms tac_at_new_TAC_new(1) [of s t] by auto
  have new: "tac_at (new_TACs later (snd (new_TAC t s))) (fst (new_TAC t s)) = Some t" for t
    by (rule tac_at_new_TACs) (rule tac_at_new_TAC_new)
  have old: "tac_at (new_TACs later (snd (new_TAC t s))) L = Some node" for t
    using assms by (intro tac_at_new_TACs tac_at_new_TAC_old)
  show ?thesis
    unfolding TAC_NewJump_def TAC_NewIf_def TAC_NewIfFalse_def
    by (simp add: fresh new old) (simp add: TAC_ctor_jump_def)
qed

text \<open>
  Claim C8, an instance: a label made first, a jump to it, and a later instruction; the
  jump still holds the address of the label.
\<close>

theorem jump_target_witness:
  "tac_at (snd (NewLabel TAC_NewBinary init_heap)) (Some 0) =
     Some \<lparr>op_f = LABEL, des_f = None, lhs_f = None, union_f = rhs_f None\<rparr>
   \<and> fst (TAC_NewJump (Some 0) (snd (NewLabel TAC_NewBinary init_heap))) = Some 1
   \<and> tac_at (new_TACs [TAC_ctor_n DES_SS_ASSIGN (Some 0) (Some 1) 8]
         (snd (TAC_NewJump (Some 0) (snd (NewLabel TAC_NewBinary init_heap))))) (Some 1) =
       Some \<lparr>op_f = JUMP, des_f = None, lhs_f = None, union_f = jump_des_f (Some 0)\<rparr>"
proof -
  have h: "tac_at (snd (NewLabel TAC_NewBinary init_heap)) (Some 0) =
     Some \<lparr>op_f = LABEL, des_f = None, lhs_f = None, union_f = rhs_f None\<rparr>"
    by (simp add: NewLabel_def TAC_NewBinary_def TAC_ctor_rhs_def new_TAC_def tac_at_def
        init_heap_def)
  have p: "fst (TAC_NewJump (Some 0) (snd (NewLabel TAC_NewBinary init_heap))) = Some 1"
    by (simp add: NewLabel_def TAC_NewBinary_def TAC_NewJump_def new_TAC_def init_heap_def)
  show ?thesis
    using h p jump_target_is_the_node [OF h,
        of "[TAC_ctor_n DES_SS_ASSIGN (Some 0) (Some 1) 8]" None]
    by simp
qed

section \<open>The shared constants\<close>

lemma holds_constant_iff:
  "holds_constant s (Some a) v \<longleftrightarrow> (\<exists>c. operand_at s (Some a) = Some (Const c) \<and> val c = v)"
  by (auto simp: holds_constant_def split: option.splits OperandObj.splits)

lemma holds_integer_iff:
  "holds_integer s (Some a) \<longleftrightarrow> (\<exists>c. operand_at s (Some a) = Some (Const c) \<and> IsInteger c)"
  by (auto simp: holds_integer_def split: option.splits OperandObj.splits)

text \<open>Each step leaves a static that is set as it is, and the objects where they are.\<close>

lemma Constant_Zero_set:
  "Zero_static s = Some a \<Longrightarrow> Constant_Zero w sg s = (Some a, s)"
  by (simp add: Constant_Zero_def)

lemma Constant_One_set:
  "One_static s = Some a \<Longrightarrow> Constant_One w t s = (Some a, s)"
  by (simp add: Constant_One_def)

lemma construct_frame:
  fixes s :: statics
  shows "operands (snd (construct c s)) = operands s"
    and "tacs (snd (construct c s)) = tacs s"
    and "Zero_static (snd (construct c s)) = Zero_static s"
    and "One_static (snd (construct c s)) = One_static s"
  by (cases c; simp add: Temporary_ctor_def GenId_def)+

lemma do_factory_F_operand:
  "do_factory (F_operand c) s = snd (new_operand (fst (construct c s)) (snd (construct c s)))"
  by (simp split: prod.splits)

lemma do_factory_operands: "\<exists>ys. operands (do_factory c s) = operands s @ ys"
proof (cases c)
  case (F_operand k)
  show ?thesis
    unfolding F_operand do_factory_F_operand by (simp add: new_operand_def construct_frame)
next
  case (F_TAC t)
  then show ?thesis by (simp add: new_TAC_def)
next
  case (F_Zero w sg)
  then show ?thesis
    by (cases "Zero_static s") (simp_all add: Constant_Zero_def new_operand_def)
next
  case (F_One w t)
  then show ?thesis
    by (cases "One_static s") (simp_all add: Constant_One_def new_operand_def)
qed

lemma do_factory_statics_other:
  "Zero_static (do_factory (F_operand k) s) = Zero_static s"
  "Zero_static (do_factory (F_TAC n) s) = Zero_static s"
  "Zero_static (do_factory (F_One w t) s) = Zero_static s"
  "One_static (do_factory (F_operand k) s) = One_static s"
  "One_static (do_factory (F_TAC n) s) = One_static s"
  "One_static (do_factory (F_Zero w sg) s) = One_static s"
proof -
  show "Zero_static (do_factory (F_operand k) s) = Zero_static s"
    unfolding do_factory_F_operand by (simp add: new_operand_def construct_frame)
  show "One_static (do_factory (F_operand k) s) = One_static s"
    unfolding do_factory_F_operand by (simp add: new_operand_def construct_frame)
  show "Zero_static (do_factory (F_TAC n) s) = Zero_static s"
    by (simp add: new_TAC_def)
  show "One_static (do_factory (F_TAC n) s) = One_static s"
    by (simp add: new_TAC_def)
  show "Zero_static (do_factory (F_One w t) s) = Zero_static s"
    by (cases "One_static s") (simp_all add: Constant_One_def new_operand_def)
  show "One_static (do_factory (F_Zero w sg) s) = One_static s"
    by (cases "Zero_static s") (simp_all add: Constant_Zero_def new_operand_def)
qed

lemma do_factory_statics_set:
  "Zero_static s = Some a \<Longrightarrow> Zero_static (do_factory c s) = Some a"
  "One_static s = Some b \<Longrightarrow> One_static (do_factory c s) = Some b"
  by (cases c; simp add: do_factory_statics_other del: do_factory.simps;
      simp add: Constant_Zero_def Constant_One_def)+

lemma do_factory_keeps:
  "operand_at s p = Some x \<Longrightarrow> operand_at (do_factory c s) p = Some x"
  "Zero_static s = Some a \<Longrightarrow> Zero_static (do_factory c s) = Some a"
  "One_static s = Some a \<Longrightarrow> One_static (do_factory c s) = Some a"
proof -
  obtain ys where ys: "operands (do_factory c s) = operands s @ ys"
    using do_factory_operands by blast
  show "operand_at s p = Some x \<Longrightarrow> operand_at (do_factory c s) p = Some x"
    by (cases p) (auto simp: operand_at_def ys nth_append split: if_splits)
  show "Zero_static s = Some a \<Longrightarrow> Zero_static (do_factory c s) = Some a"
    by (rule do_factory_statics_set)
  show "One_static s = Some a \<Longrightarrow> One_static (do_factory c s) = Some a"
    by (rule do_factory_statics_set)
qed

lemma do_factories_keeps:
  "operand_at s p = Some x \<Longrightarrow> operand_at (do_factories cs s) p = Some x"
  "Zero_static s = Some a \<Longrightarrow> Zero_static (do_factories cs s) = Some a"
  "One_static s = Some a \<Longrightarrow> One_static (do_factories cs s) = Some a"
  by (induction cs arbitrary: s) (simp_all add: do_factory_keeps)

lemma Constant_Zero_first:
  assumes "Zero_static s = None"
  shows "\<exists>a. fst (Constant_Zero w sg s) = Some a
    \<and> Zero_static (snd (Constant_Zero w sg s)) = Some a
    \<and> operand_at (snd (Constant_Zero w sg s)) (Some a) =
        Some (Const (Constant_ctor w (if sg then SIGNED else UNSIGNED) 0))"
  using assms by (simp add: Constant_Zero_def new_operand_def operand_at_def)

lemma Constant_One_first:
  assumes "One_static s = None"
  shows "\<exists>a. fst (Constant_One w t s) = Some a
    \<and> One_static (snd (Constant_One w t s)) = Some a
    \<and> operand_at (snd (Constant_One w t s)) (Some a) = Some (Const (Constant_ctor w t 1))"
  using assms by (simp add: Constant_One_def new_operand_def operand_at_def)

lemma statics_ok_init: "statics_ok init_statics"
  by (simp add: statics_ok_def init_statics_def holds_constant_def holds_integer_def)

lemma statics_ok_step:
  assumes "statics_ok s"
  shows "statics_ok (do_factory c s)"
proof -
  have zero: "holds_constant (do_factory c s) (Zero_static (do_factory c s)) 0
      \<and> holds_integer (do_factory c s) (Zero_static (do_factory c s))"
  proof (cases "Zero_static s")
    case (Some a)
    with assms obtain k where "operand_at s (Some a) = Some (Const k)" "val k = 0" "IsInteger k"
      by (auto simp: statics_ok_def holds_constant_iff holds_integer_iff)
    with Some show ?thesis
      by (auto simp: do_factory_keeps holds_constant_iff holds_integer_iff)
  next
    case None
    show ?thesis
    proof (cases c)
      case (F_Zero w sg)
      from Constant_Zero_first [OF None, of w sg] show ?thesis
        by (auto simp: F_Zero holds_constant_iff holds_integer_iff val_def IsInteger_def
            Constant_ctor_def)
    qed (simp_all add: None do_factory_statics_other holds_constant_def holds_integer_def
        del: do_factory.simps)
  qed
  have one: "holds_constant (do_factory c s) (One_static (do_factory c s)) 1"
  proof (cases "One_static s")
    case (Some a)
    with assms obtain k where "operand_at s (Some a) = Some (Const k)" "val k = 1"
      by (auto simp: statics_ok_def holds_constant_iff)
    with Some show ?thesis
      by (auto simp: do_factory_keeps holds_constant_iff)
  next
    case None
    show ?thesis
    proof (cases c)
      case (F_One w t)
      from Constant_One_first [OF None, of w t] show ?thesis
        by (auto simp: F_One holds_constant_iff val_def Constant_ctor_def)
    qed (simp_all add: None do_factory_statics_other holds_constant_def del: do_factory.simps)
  qed
  from zero one show ?thesis by (simp add: statics_ok_def)
qed

lemma statics_ok_reached: "statics_ok s \<Longrightarrow> statics_ok (do_factories cs s)"
  by (induction cs arbitrary: s) (simp_all add: statics_ok_step)

lemma Constant_Zero_returns:
  assumes "statics_ok s"
  shows "\<exists>a k. fst (Constant_Zero w sg s) = Some a
    \<and> Zero_static (snd (Constant_Zero w sg s)) = Some a
    \<and> operand_at (snd (Constant_Zero w sg s)) (Some a) = Some (Const k)
    \<and> val k = 0 \<and> IsInteger k"
proof -
  have ok: "statics_ok (do_factory (F_Zero w sg) s)"
    using assms by (rule statics_ok_step)
  have "\<exists>a. fst (Constant_Zero w sg s) = Some a
      \<and> Zero_static (snd (Constant_Zero w sg s)) = Some a"
  proof (cases "Zero_static s")
    case None
    from Constant_Zero_first [OF this, of w sg] show ?thesis by blast
  next
    case (Some a)
    then show ?thesis by (simp add: Constant_Zero_set)
  qed
  then obtain a where a: "fst (Constant_Zero w sg s) = Some a"
      "Zero_static (snd (Constant_Zero w sg s)) = Some a" by blast
  with ok show ?thesis
    by (auto simp: statics_ok_def holds_constant_iff holds_integer_iff)
qed

lemma Constant_One_returns:
  assumes "statics_ok s"
  shows "\<exists>a k. fst (Constant_One w t s) = Some a
    \<and> One_static (snd (Constant_One w t s)) = Some a
    \<and> operand_at (snd (Constant_One w t s)) (Some a) = Some (Const k)
    \<and> val k = 1"
proof -
  have ok: "statics_ok (do_factory (F_One w t) s)"
    using assms by (rule statics_ok_step)
  have "\<exists>a. fst (Constant_One w t s) = Some a
      \<and> One_static (snd (Constant_One w t s)) = Some a"
  proof (cases "One_static s")
    case None
    from Constant_One_first [OF this, of w t] show ?thesis by blast
  next
    case (Some a)
    then show ?thesis by (simp add: Constant_One_set)
  qed
  then obtain a where a: "fst (Constant_One w t s) = Some a"
      "One_static (snd (Constant_One w t s)) = Some a" by blast
  with ok show ?thesis
    by (auto simp: statics_ok_def holds_constant_iff)
qed

text \<open>
  Claim C7.  Start the process and let it call any factories; call \<^verbatim>\<open>Constant::Zero()\<close>;
  let it call any factories again; call \<^verbatim>\<open>Constant::Zero()\<close> again.  The second call
  returns the pointer the first call returned and changes nothing (it allocates no
  Constant), and the object behind the pointer is a Constant with \<^verbatim>\<open>val() == 0\<close> for
  which \<^verbatim>\<open>IsInteger()\<close> holds.  The same with \<^verbatim>\<open>Constant::One()\<close> and
  \<^verbatim>\<open>val() == 1\<close>.
\<close>

theorem Zero_and_One_are_shared:
  "(let s1 = do_factories before init_statics;
        r1 = Constant_Zero w sg s1;
        s2 = do_factories between (snd r1);
        r2 = Constant_Zero w' sg' s2
    in fst r2 = fst r1 \<and> snd r2 = s2
       \<and> (\<exists>c. operand_at s2 (fst r2) = Some (Const c) \<and> val c = 0 \<and> IsInteger c))
   \<and> (let s1 = do_factories before init_statics;
        r1 = Constant_One w t s1;
        s2 = do_factories between (snd r1);
        r2 = Constant_One w' t' s2
    in fst r2 = fst r1 \<and> snd r2 = s2
       \<and> (\<exists>c. operand_at s2 (fst r2) = Some (Const c) \<and> val c = 1))"
proof -
  define s1 where "s1 = do_factories before init_statics"
  have ok: "statics_ok s1"
    unfolding s1_def by (rule statics_ok_reached) (rule statics_ok_init)
  have zero: "fst (Constant_Zero w' sg' (do_factories between (snd (Constant_Zero w sg s1)))) =
        fst (Constant_Zero w sg s1)
      \<and> snd (Constant_Zero w' sg' (do_factories between (snd (Constant_Zero w sg s1)))) =
        do_factories between (snd (Constant_Zero w sg s1))
      \<and> (\<exists>c. operand_at (do_factories between (snd (Constant_Zero w sg s1)))
             (fst (Constant_Zero w' sg' (do_factories between (snd (Constant_Zero w sg s1))))) =
           Some (Const c) \<and> val c = 0 \<and> IsInteger c)"
  proof -
    from Constant_Zero_returns [OF ok, of w sg] obtain a k where
      r1: "fst (Constant_Zero w sg s1) = Some a"
      "Zero_static (snd (Constant_Zero w sg s1)) = Some a"
      "operand_at (snd (Constant_Zero w sg s1)) (Some a) = Some (Const k)"
      "val k = 0" "IsInteger k" by blast
    let ?s2 = "do_factories between (snd (Constant_Zero w sg s1))"
    from r1 have "Zero_static ?s2 = Some a" "operand_at ?s2 (Some a) = Some (Const k)"
      by (simp_all add: do_factories_keeps)
    with r1 show ?thesis by (simp add: Constant_Zero_set)
  qed
  have one: "fst (Constant_One w' t' (do_factories between (snd (Constant_One w t s1)))) =
        fst (Constant_One w t s1)
      \<and> snd (Constant_One w' t' (do_factories between (snd (Constant_One w t s1)))) =
        do_factories between (snd (Constant_One w t s1))
      \<and> (\<exists>c. operand_at (do_factories between (snd (Constant_One w t s1)))
             (fst (Constant_One w' t' (do_factories between (snd (Constant_One w t s1))))) =
           Some (Const c) \<and> val c = 1)"
  proof -
    from Constant_One_returns [OF ok, of w t] obtain a k where
      r1: "fst (Constant_One w t s1) = Some a"
      "One_static (snd (Constant_One w t s1)) = Some a"
      "operand_at (snd (Constant_One w t s1)) (Some a) = Some (Const k)"
      "val k = 1" by blast
    let ?s2 = "do_factories between (snd (Constant_One w t s1))"
    from r1 have "One_static ?s2 = Some a" "operand_at ?s2 (Some a) = Some (Const k)"
      by (simp_all add: do_factories_keeps)
    with r1 show ?thesis by (simp add: Constant_One_set)
  qed
  from zero one show ?thesis
    unfolding Let_def s1_def by blast
qed

end
